theory Spec2Isabelle
  imports Main
begin

section \<open>Python exceptions and observable events\<close>

text \<open>
  The exception classes that the functions of \<^verbatim>\<open>backend/app/pfsense/utils.py\<close> raise,
  catch or let through. \<open>AuthenticationException\<close> is paramiko's subclass of
  \<open>SSHException\<close>; \<open>OtherException\<close> stands for every class that no handler of the module
  names (socket errors, I/O errors, schema validation errors).
\<close>

datatype exn =
    AttributeError
  | ValueError
  | AuthenticationException
  | SSHException
  | OtherException
  | PfSenseError string

datatype level = ERROR | INFO

text \<open>
  A run leaves a trace: the records handed to \<open>logging\<close>, the calls of the two DHCP
  checks made by \<open>validate_pfsense_config\<close>, and the calls on the SSH client, its
  channels and the local temporary file: \<open>LoadKey p\<close> is
  \<open>RSAKey.from_private_key_file(p)\<close>, \<open>ConnectKey\<close> and \<open>ConnectPassword\<close> are the two
  forms of \<open>client.connect\<close>, \<open>ExecCommand c\<close> is \<open>client.exec_command(c)\<close>,
  \<open>WriteTempFile x\<close> writes the text \<open>x\<close> to a fresh temporary file,
  \<open>SftpPut x r\<close> is \<open>sftp.put\<close> of that file (holding \<open>x\<close>) to the remote path \<open>r\<close>,
  and \<open>Close\<close> is \<open>client.close()\<close>. A call that raises is in the trace too: it was made.
\<close>

datatype event =
    Log level string
  | Call string
  | LoadKey string
  | ConnectKey
  | ConnectPassword
  | ExecCommand string
  | RecvExitStatus
  | ReadStderr
  | ReadStdout
  | OpenSftp
  | WriteTempFile string
  | SftpPut string string
  | SftpClose
  | Close

type_synonym 'a comp = "event list \<times> (exn + 'a)"

definition bind :: "'a comp \<Rightarrow> ('a \<Rightarrow> 'b comp) \<Rightarrow> 'b comp" where
  "bind m f =
     (case m of
        (t, Inl e) \<Rightarrow> (t, Inl e)
      | (t, Inr a) \<Rightarrow> (case f a of (t', r) \<Rightarrow> (t @ t', r)))"

definition call :: "string \<Rightarrow> 'a comp \<Rightarrow> 'a comp" where
  "call name m = (case m of (t, r) \<Rightarrow> (Call name # t, r))"

section \<open>The configuration schema\<close>

text \<open>
  Modelled from the spec: the module \<^verbatim>\<open>config/schema.py\<close> (class \<open>PfSenseConfig\<close>) is
  not part of the sources at hand. The fields are those of the spec's data model:
  \<open>System { hostname: string }\<close>, \<open>Interfaces { lan: { ipaddr: string, subnet: integer } }\<close>,
  \<open>Dhcpd { lan: { range: { from: string?, to: string? } } }\<close>. Every section is optional
  (\<open>None\<close> in Python), which is what the truth tests and attribute accesses of the
  validator allow for. The remaining fields (users, groups, static maps) live in the
  record's extension slot. \<open>range\<close>, \<open>from_\<close> and \<open>to\<close> are named \<open>lan_range\<close>,
  \<open>range_from\<close> and \<open>range_to\<close>; the \<open>lan\<close> of \<open>dhcpd\<close> is \<open>dhcpd_lan\<close>.
\<close>

record DhcpRange =
  range_from :: "string option"
  range_to :: "string option"

record DhcpdLan =
  lan_range :: "DhcpRange option"

record Dhcpd =
  dhcpd_lan :: "DhcpdLan option"

record LanInterface =
  ipaddr :: string
  subnet :: int

record Interfaces =
  lan :: "LanInterface option"

record System =
  hostname :: string

record PfSenseConfig =
  system :: "System option"
  interfaces :: "Interfaces option"
  dhcpd :: "Dhcpd option"

section \<open>The address parsers of Python's \<open>ipaddress\<close> module\<close>

text \<open>\<open>str.split(sep)\<close> for a one-character separator: \<open>''''.split(''.'')\<close> is \<open>['''']\<close>.\<close>

fun split_on :: "char \<Rightarrow> string \<Rightarrow> string list" where
  "split_on sep [] = [[]]"
| "split_on sep (c # cs) =
     (if c = sep then [] # split_on sep cs
      else (case split_on sep cs of
              [] \<Rightarrow> [[c]]
            | w # ws \<Rightarrow> (c # w) # ws))"

definition is_ascii_digit :: "char \<Rightarrow> bool" where
  "is_ascii_digit c = (48 \<le> (of_char c :: nat) \<and> (of_char c :: nat) \<le> 57)"

definition digit_value :: "char \<Rightarrow> int" where
  "digit_value c = int (of_char c) - 48"

definition int_of_digits :: "string \<Rightarrow> int" where
  "int_of_digits s = foldl (\<lambda>acc c. acc * 10 + digit_value c) 0 s"

text \<open>
  \<open>IPv4Address._parse_octet\<close>: an octet is one to three ASCII digits, without a leading
  zero unless it is \<open>0\<close> itself (the rule of Python 3.9.5 and later), and at most 255.
\<close>

definition parse_octet :: "string \<Rightarrow> exn + int" where
  "parse_octet octet_str =
     (if octet_str = [] then Inl ValueError
      else if \<not> list_all is_ascii_digit octet_str then Inl ValueError
      else if length octet_str > 3 then Inl ValueError
      else if octet_str \<noteq> ''0'' \<and> hd octet_str = CHR ''0'' then Inl ValueError
      else if int_of_digits octet_str > 255 then Inl ValueError
      else Inr (int_of_digits octet_str))"

fun parse_octets :: "string list \<Rightarrow> exn + int list" where
  "parse_octets [] = Inr []"
| "parse_octets (s # ss) =
     (case parse_octet s of
        Inl e \<Rightarrow> Inl e
      | Inr v \<Rightarrow> (case parse_octets ss of Inl e \<Rightarrow> Inl e | Inr vs \<Rightarrow> Inr (v # vs)))"

text \<open>\<open>int.from_bytes(octets, 'big')\<close>.\<close>

definition from_bytes_big :: "int list \<Rightarrow> int" where
  "from_bytes_big bs = foldl (\<lambda>acc b. acc * 256 + b) 0 bs"

text \<open>
  \<open>ipaddress.IPv4Address(s)\<close> for a string: the address as an integer, or
  \<open>AddressValueError\<close>, a subclass of \<open>ValueError\<close> (the handlers of the module only name
  \<open>ValueError\<close>).
\<close>

definition IPv4Address :: "string \<Rightarrow> exn + int" where
  "IPv4Address addr_str =
     (if CHR ''/'' \<in> set addr_str then Inl ValueError
      else if addr_str = [] then Inl ValueError
      else let octets = split_on CHR ''.'' addr_str in
        if length octets \<noteq> 4 then Inl ValueError
        else (case parse_octets octets of
                Inl e \<Rightarrow> Inl e
              | Inr vs \<Rightarrow> Inr (from_bytes_big vs)))"

record IPv4Network =
  network_address :: int
  netmask :: int

definition ALL_ONES :: int where
  "ALL_ONES = 2 ^ 32 - 1"

text \<open>\<open>_ip_int_from_prefix\<close>: \<open>ALL_ONES ^ (ALL_ONES >> prefixlen)\<close>.\<close>

definition ip_int_from_prefix :: "nat \<Rightarrow> int" where
  "ip_int_from_prefix prefixlen = Bit_Operations.xor ALL_ONES (drop_bit prefixlen ALL_ONES)"

text \<open>
  \<open>ipaddress.IPv4Network(f"{ipaddr}/{subnet}", strict=False)\<close>, from the two values the
  f-string of \<open>_validate_dhcp_subnet_consistency\<close> joins. The text is split at \<open>/\<close>: a
  slash inside \<open>ipaddr\<close> gives three parts or more, which is an error. The first part is
  parsed by \<open>IPv4Address\<close>. The second part is the decimal form of the integer
  \<open>subnet\<close>, which \<open>_make_netmask\<close> accepts exactly when it is made of digits and lies in
  \<open>0..32\<close> (its dotted-quad fallback needs four octets, which the decimal form of an
  integer never has). With \<open>strict=False\<close> the host bits are masked away.
\<close>

definition IPv4Network_nonstrict :: "string \<Rightarrow> int \<Rightarrow> exn + IPv4Network" where
  "IPv4Network_nonstrict addr prefix =
     (if CHR ''/'' \<in> set addr then Inl ValueError
      else (case IPv4Address addr of
              Inl e \<Rightarrow> Inl e
            | Inr packed \<Rightarrow>
                if \<not> (0 \<le> prefix \<and> prefix \<le> 32) then Inl ValueError
                else let mask = ip_int_from_prefix (nat prefix) in
                  Inr \<lparr> network_address = Bit_Operations.and packed mask, netmask = mask \<rparr>))"

text \<open>\<open>IPv4Network.__contains__\<close> for an address.\<close>

definition contains :: "IPv4Network \<Rightarrow> int \<Rightarrow> bool" where
  "contains net ip = (Bit_Operations.and ip (netmask net) = network_address net)"

section \<open>The semantic validator\<close>

text \<open>Python's truth test of an optional string: \<open>None\<close> and \<open>""\<close> are false.\<close>

definition truthy :: "string option \<Rightarrow> bool" where
  "truthy s = (case s of None \<Rightarrow> False | Some v \<Rightarrow> v \<noteq> [])"

text \<open>
  \<open>config.dhcpd and config.dhcpd.lan and config.dhcpd.lan.range\<close>: the range when all
  three sections are there.
\<close>

definition dhcpd_lan_range :: "PfSenseConfig \<Rightarrow> DhcpRange option" where
  "dhcpd_lan_range config =
     (case dhcpd config of
        None \<Rightarrow> None
      | Some d \<Rightarrow> (case dhcpd_lan d of
                    None \<Rightarrow> None
                  | Some l \<Rightarrow> lan_range l))"

text \<open>
  \<open>config.interfaces.lan\<close>: reading an attribute of \<open>None\<close> raises \<open>AttributeError\<close>.
\<close>

definition interfaces_lan :: "PfSenseConfig \<Rightarrow> exn + LanInterface" where
  "interfaces_lan config =
     (case interfaces config of
        None \<Rightarrow> Inl AttributeError
      | Some ifs \<Rightarrow> (case lan ifs of
                      None \<Rightarrow> Inl AttributeError
                    | Some l \<Rightarrow> Inr l))"

text \<open>
  \<open>_validate_dhcp_range_consistency\<close>. The \<open>try\<close> block holds the two calls of
  \<open>IPv4Address\<close> and the comparison; its handler for \<open>ValueError\<close> logs and returns
  \<open>False\<close>. Past the truth test both endpoints are strings, so the last case of the
  pattern match is never taken.
\<close>

definition validate_dhcp_range_consistency :: "PfSenseConfig \<Rightarrow> bool comp" where
  "validate_dhcp_range_consistency config =
     (case dhcpd_lan_range config of
        None \<Rightarrow> ([], Inr True)
      | Some dhcp_range \<Rightarrow>
          if \<not> (truthy (range_from dhcp_range) \<and> truthy (range_to dhcp_range))
          then ([], Inr True)
          else
            (case (range_from dhcp_range, range_to dhcp_range) of
               (Some f, Some t) \<Rightarrow>
                 (case IPv4Address f of
                    Inl e \<Rightarrow>
                      if e = ValueError
                      then ([Log ERROR ''[!] Invalid DHCP range addresses: %r''], Inr False)
                      else ([], Inl e)
                  | Inr from_ip \<Rightarrow>
                      (case IPv4Address t of
                         Inl e \<Rightarrow>
                           if e = ValueError
                           then ([Log ERROR ''[!] Invalid DHCP range addresses: %r''], Inr False)
                           else ([], Inl e)
                       | Inr to_ip \<Rightarrow>
                           if from_ip \<ge> to_ip
                           then ([Log ERROR
                                   ''[!] DHCP range 'from' address must be less than 'to' address.''],
                                 Inr False)
                           else ([], Inr True)))
             | _ \<Rightarrow> ([], Inr True)))"

text \<open>
  The inner \<open>try\<close> of \<open>_validate_dhcp_subnet_consistency\<close>: both endpoints are parsed and
  tested against the network; a \<open>ValueError\<close> is passed over, and the function goes on to
  its final \<open>return True\<close>.
\<close>

definition range_within_network :: "IPv4Network \<Rightarrow> string \<Rightarrow> string \<Rightarrow> bool comp" where
  "range_within_network lan_network f t =
     (case IPv4Address f of
        Inl e \<Rightarrow> if e = ValueError then ([], Inr True) else ([], Inl e)
      | Inr from_ip \<Rightarrow>
          (case IPv4Address t of
             Inl e \<Rightarrow> if e = ValueError then ([], Inr True) else ([], Inl e)
           | Inr to_ip \<Rightarrow>
               if \<not> contains lan_network from_ip \<or> \<not> contains lan_network to_ip
               then ([Log ERROR ''[!] DHCP range must be within the LAN subnet.''], Inr False)
               else ([], Inr True)))"

text \<open>
  \<open>_validate_dhcp_subnet_consistency\<close>. The network is built first, inside the outer
  \<open>try\<close>, whose handler passes over \<open>ValueError\<close> only: an \<open>AttributeError\<close> from
  \<open>config.interfaces.lan\<close> leaves the function.
\<close>

definition validate_dhcp_subnet_consistency :: "PfSenseConfig \<Rightarrow> bool comp" where
  "validate_dhcp_subnet_consistency config =
     (case interfaces_lan config of
        Inl e \<Rightarrow> if e = ValueError then ([], Inr True) else ([], Inl e)
      | Inr l \<Rightarrow>
          (case IPv4Network_nonstrict (ipaddr l) (subnet l) of
             Inl e \<Rightarrow> if e = ValueError then ([], Inr True) else ([], Inl e)
           | Inr lan_network \<Rightarrow>
               (case dhcpd_lan_range config of
                  None \<Rightarrow> ([], Inr True)
                | Some dhcp_range \<Rightarrow>
                    if \<not> (truthy (range_from dhcp_range) \<and> truthy (range_to dhcp_range))
                    then ([], Inr True)
                    else
                      (case (range_from dhcp_range, range_to dhcp_range) of
                         (Some f, Some t) \<Rightarrow> range_within_network lan_network f t
                       | _ \<Rightarrow> ([], Inr True)))))"

text \<open>
  The inputs of the range-consistency check are there: the range section exists and both
  of its endpoints pass Python's truth test.
\<close>

definition range_endpoints_present :: "PfSenseConfig \<Rightarrow> bool" where
  "range_endpoints_present config =
     (case dhcpd_lan_range config of
        None \<Rightarrow> False
      | Some dhcp_range \<Rightarrow> truthy (range_from dhcp_range) \<and> truthy (range_to dhcp_range))"

text \<open>The body of the \<open>try\<close> block of \<open>validate_pfsense_config\<close>.\<close>

definition validate_body :: "PfSenseConfig \<Rightarrow> bool comp" where
  "validate_body config =
     (case system config of
        None \<Rightarrow> ([], Inl AttributeError)
      | Some sys \<Rightarrow>
          if hostname sys = [] then ([Log ERROR ''[!] Hostname is required.''], Inr False)
          else
            (case interfaces_lan config of
               Inl e \<Rightarrow> ([], Inl e)
             | Inr l \<Rightarrow>
                 if ipaddr l = []
                 then ([Log ERROR ''[!] LAN interface IP address is required.''], Inr False)
                 else
                   bind (call ''_validate_dhcp_range_consistency''
                           (validate_dhcp_range_consistency config))
                     (\<lambda>range_ok.
                        if \<not> range_ok then ([], Inr False)
                        else
                          bind (call ''_validate_dhcp_subnet_consistency''
                                  (validate_dhcp_subnet_consistency config))
                            (\<lambda>subnet_ok.
                               if \<not> subnet_ok then ([], Inr False)
                               else ([Log INFO ''[+] pfSense configuration validation passed.''],
                                     Inr True)))))"

text \<open>
  \<open>validate_pfsense_config\<close>: the handler \<open>except Exception\<close> takes every exception of
  the body, logs it and returns \<open>False\<close>.
\<close>

definition validate_pfsense_config :: "PfSenseConfig \<Rightarrow> bool comp" where
  "validate_pfsense_config config =
     (case validate_body config of
        (t, Inl e) \<Rightarrow> (t @ [Log ERROR ''[!] Configuration validation failed: {e}''], Inr False)
      | (t, Inr b) \<Rightarrow> (t, Inr b))"

section \<open>The transport session and the orchestrator\<close>

text \<open>
  What lies outside the module is a parameter of the model: the settings
  (\<open>settings.PFSENSE_KEY_FILE\<close>, \<open>CONFIG_DIR\<close>, \<open>BACKUP_CONFIG_DIR\<close>; host, port, user name
  and password do not influence the control flow), the behaviour of the remote side
  (\<open>raises\<close> tells which call raises which exception, \<open>exit_status\<close> is the exit status
  that a command run on the remote side reports and \<open>stdout_text\<close> what it prints;
  \<open>fetch_pfsense_config\<close> reads both for its \<open>cat\<close> command, \<open>push_pfsense_config\<close>
  reads neither), and the two library transforms: \<open>decode\<close> is
  \<open>xmltodict.parse\<close> followed by \<open>PfSenseConfig(**config_dict["pfsense"])\<close>, and
  \<open>encode\<close> is \<open>model_dump(by_alias=True)\<close> followed by \<open>xmltodict.unparse\<close>.
\<close>

record world =
  PFSENSE_KEY_FILE :: "string option"
  CONFIG_DIR :: string
  BACKUP_CONFIG_DIR :: string
  raises :: "event \<Rightarrow> exn option"
  exit_status :: int
  stdout_text :: string
  decode :: "string \<Rightarrow> exn + PfSenseConfig"
  encode :: "PfSenseConfig \<Rightarrow> exn + string"

definition perform :: "world \<Rightarrow> event \<Rightarrow> unit comp" where
  "perform w a = ([a], case raises w a of None \<Rightarrow> Inr () | Some e \<Rightarrow> Inl e)"

text \<open>The \<open>if settings.PFSENSE_KEY_FILE:\<close> block of \<open>connect\<close>.\<close>

definition key_attempt :: "world \<Rightarrow> unit comp" where
  "key_attempt w =
     (case PFSENSE_KEY_FILE w of
        None \<Rightarrow> ([], Inr ())
      | Some p \<Rightarrow>
          if p = [] then ([], Inr ())
          else bind (perform w (LoadKey p)) (\<lambda>_. perform w ConnectKey))"

text \<open>
  \<open>connect\<close>: the \<open>try\<close> block is the key attempt followed by the password attempt; the
  first handler takes \<open>AuthenticationException\<close>, the second the other
  \<open>SSHException\<close>s, and every other exception leaves the function as it is. The one
  client object is implicit.
\<close>

definition connect :: "world \<Rightarrow> unit comp" where
  "connect w =
     (case bind (key_attempt w) (\<lambda>_. perform w ConnectPassword) of
        (t, Inl e) \<Rightarrow>
          if e = AuthenticationException
          then (t @ [Log ERROR ''Authentication failed when connecting to pfSense: %s''],
                Inl (PfSenseError ''Authentication failed''))
          else if e = SSHException
          then (t @ [Log ERROR ''SSH connection failed: %s''],
                Inl (PfSenseError ''SSH connection failed''))
          else (t, Inl e)
      | (t, Inr u) \<Rightarrow> (t, Inr u))"

definition fetch_pfsense_config :: "world \<Rightarrow> PfSenseConfig comp" where
  "fetch_pfsense_config w =
     bind (connect w) (\<lambda>_.
     bind (perform w (ExecCommand (''cat '' @ CONFIG_DIR w))) (\<lambda>_.
     bind (perform w RecvExitStatus) (\<lambda>_.
       if exit_status w \<noteq> 0
       then
         bind (perform w ReadStderr) (\<lambda>_.
         bind (perform w Close) (\<lambda>_.
           ([], Inl (PfSenseError ''Failed to fetch pfSense configuration.''))))
       else
         bind (perform w ReadStdout) (\<lambda>_.
         bind (perform w Close) (\<lambda>_.
           ([], decode w (stdout_text w)))))))"

definition push_pfsense_config :: "world \<Rightarrow> PfSenseConfig \<Rightarrow> int comp" where
  "push_pfsense_config w config =
     bind (connect w) (\<lambda>_.
     bind (perform w (ExecCommand (''cp '' @ CONFIG_DIR w @ '' '' @ BACKUP_CONFIG_DIR w))) (\<lambda>_.
     bind (perform w OpenSftp) (\<lambda>_.
     bind ([], encode w config) (\<lambda>config_xml.
     bind (perform w (WriteTempFile config_xml)) (\<lambda>_.
     bind (perform w (SftpPut config_xml ''/tmp/config.xml'')) (\<lambda>_.
     bind (perform w SftpClose) (\<lambda>_.
     bind (perform w (ExecCommand (''mv /tmp/config.xml '' @ CONFIG_DIR w))) (\<lambda>_.
     bind (perform w (ExecCommand ''rm /tmp/config.cache'')) (\<lambda>_.
     bind (perform w (ExecCommand ''/etc/rc.reload_all'')) (\<lambda>_.
     bind (perform w Close) (\<lambda>_.
       ([], Inr 1))))))))))))"

text \<open>The calls that act on the remote device: commands and uploads.\<close>

fun remote_effect :: "event \<Rightarrow> bool" where
  "remote_effect (ExecCommand c) = True"
| "remote_effect (SftpPut x r) = True"
| "remote_effect _ = False"

text \<open>
  Every call that \<open>push_pfsense_config\<close>, respectively \<open>fetch_pfsense_config\<close>, makes
  before \<open>client.close()\<close> returns without raising.
\<close>

definition push_reaches_close :: "world \<Rightarrow> PfSenseConfig \<Rightarrow> bool" where
  "push_reaches_close w config =
     (snd (connect w) = Inr ()
      \<and> raises w (ExecCommand (''cp '' @ CONFIG_DIR w @ '' '' @ BACKUP_CONFIG_DIR w)) = None
      \<and> raises w OpenSftp = None
      \<and> (case encode w config of
            Inl e \<Rightarrow> False
          | Inr config_xml \<Rightarrow>
              raises w (WriteTempFile config_xml) = None
              \<and> raises w (SftpPut config_xml ''/tmp/config.xml'') = None)
      \<and> raises w SftpClose = None
      \<and> raises w (ExecCommand (''mv /tmp/config.xml '' @ CONFIG_DIR w)) = None
      \<and> raises w (ExecCommand ''rm /tmp/config.cache'') = None
      \<and> raises w (ExecCommand ''/etc/rc.reload_all'') = None)"

definition fetch_reaches_close :: "world \<Rightarrow> bool" where
  "fetch_reaches_close w =
     (snd (connect w) = Inr ()
      \<and> raises w (ExecCommand (''cat '' @ CONFIG_DIR w)) = None
      \<and> raises w RecvExitStatus = None
      \<and> raises w (if exit_status w \<noteq> 0 then ReadStderr else ReadStdout) = None)"

section \<open>Concrete configurations and remote sides\<close>

definition lan_config ::
  "string \<Rightarrow> string \<Rightarrow> int \<Rightarrow> string option \<Rightarrow> string option \<Rightarrow> PfSenseConfig" where
  "lan_config h ip n f t =
     \<lparr> system = Some \<lparr> hostname = h \<rparr>,
       interfaces = Some \<lparr> lan = Some \<lparr> ipaddr = ip, subnet = n \<rparr> \<rparr>,
       dhcpd = Some \<lparr> dhcpd_lan = Some \<lparr> lan_range =
                 Some \<lparr> range_from = f, range_to = t \<rparr> \<rparr> \<rparr> \<rparr>"

definition ordered_config :: PfSenseConfig where
  "ordered_config =
     lan_config ''fw'' ''192.168.1.1'' 24 (Some ''192.168.1.50'') (Some ''192.168.1.100'')"

definition inverted_config :: PfSenseConfig where
  "inverted_config =
     lan_config ''fw'' ''192.168.1.1'' 24 (Some ''192.168.1.100'') (Some ''192.168.1.50'')"

definition outside_config :: PfSenseConfig where
  "outside_config =
     lan_config ''fw'' ''192.168.1.1'' 24 (Some ''192.168.1.50'') (Some ''192.168.2.10'')"

definition sentinel_config :: PfSenseConfig where
  "sentinel_config =
     lan_config ''fw'' ''192.168.1.1'' 24 (Some ''dhcp'') (Some ''192.168.1.100'')"

definition nameless_inverted_config :: PfSenseConfig where
  "nameless_inverted_config =
     lan_config [] ''192.168.1.1'' 24 (Some ''192.168.1.100'') (Some ''192.168.1.50'')"

definition rangeless_config :: PfSenseConfig where
  "rangeless_config = lan_config ''fw'' ''192.168.1.1'' 24 None None"

definition empty_config :: PfSenseConfig where
  "empty_config = \<lparr> system = None, interfaces = None, dhcpd = None \<rparr>"

text \<open>
  A remote side on which every call succeeds, with or without a private key, and
  variants on which one call raises.
\<close>

definition quiet_world :: "string option \<Rightarrow> world" where
  "quiet_world key =
     \<lparr> PFSENSE_KEY_FILE = key,
       CONFIG_DIR = ''/conf/config.xml'',
       BACKUP_CONFIG_DIR = ''/conf/config.xml.bak'',
       raises = (\<lambda>a. None),
       exit_status = 0,
       stdout_text = ''<pfsense/>'',
       decode = (\<lambda>x. Inr ordered_config),
       encode = (\<lambda>c. Inr ''<pfsense/>'') \<rparr>"

definition failing_world :: "string option \<Rightarrow> event \<Rightarrow> exn \<Rightarrow> world" where
  "failing_world key a e =
     (quiet_world key) \<lparr> raises := (\<lambda>b. if b = a then Some e else None) \<rparr>"

definition key_rejected_world :: world where
  "key_rejected_world = failing_world (Some ''/root/.ssh/id_rsa'') ConnectKey AuthenticationException"

definition upload_fails_world :: world where
  "upload_fails_world = failing_world None (SftpPut ''<pfsense/>'' ''/tmp/config.xml'') OtherException"

definition exec_fails_world :: world where
  "exec_fails_world = failing_world None (ExecCommand ''cat /conf/config.xml'') SSHException"

definition nonzero_exit_world :: world where
  "nonzero_exit_world = (quiet_world None) \<lparr> exit_status := 1 \<rparr>"

section \<open>Properties\<close>

subsection \<open>Auxiliary facts\<close>

lemma bind_Inl [simp]: "bind (t, Inl e) f = (t, Inl e)"
  by (simp add: bind_def)

lemma bind_Inr [simp]: "bind (t, Inr a) f = (t @ fst (f a), snd (f a))"
  by (simp add: bind_def split: prod.splits)

lemma call_pair [simp]: "call n (t, r) = (Call n # t, r)"
  by (simp add: call_def)

lemma parse_octets_error: "parse_octets ss = Inl e \<Longrightarrow> e = ValueError"
  by (induction ss arbitrary: e) (auto simp: parse_octet_def split: if_splits sum.splits)

lemma IPv4Address_error: "IPv4Address s = Inl e \<Longrightarrow> e = ValueError"
  by (auto simp: IPv4Address_def Let_def split: if_splits sum.splits dest: parse_octets_error)

lemma IPv4Address_empty: "IPv4Address [] = Inl ValueError"
  by (simp add: IPv4Address_def)

lemma range_consistency_unparseable_from:
  assumes "dhcpd_lan_range c = Some r" "range_from r = Some f" "range_to r = Some t"
    and "f \<noteq> []" "t \<noteq> []" "IPv4Address f = Inl e"
  shows "validate_dhcp_range_consistency c =
           ([Log ERROR ''[!] Invalid DHCP range addresses: %r''], Inr False)"
  using assms IPv4Address_error [of f e]
  by (simp add: validate_dhcp_range_consistency_def truthy_def)

lemma range_consistency_parsed:
  assumes "dhcpd_lan_range c = Some r" "range_from r = Some f" "range_to r = Some t"
    and "IPv4Address f = Inr a" "IPv4Address t = Inr b"
  shows "validate_dhcp_range_consistency c =
           (if a \<ge> b
            then ([Log ERROR ''[!] DHCP range 'from' address must be less than 'to' address.''],
                  Inr False)
            else ([], Inr True))"
proof -
  have "f \<noteq> []" "t \<noteq> []"
    using assms(4,5) IPv4Address_empty by auto
  then show ?thesis
    using assms by (simp add: validate_dhcp_range_consistency_def truthy_def)
qed

lemma range_consistency_total:
  "\<exists>b. snd (validate_dhcp_range_consistency c) = Inr b"
  by (auto simp: validate_dhcp_range_consistency_def split: option.splits sum.splits
      dest: IPv4Address_error)

lemma range_consistency_no_call:
  "Call n \<notin> set (fst (validate_dhcp_range_consistency c))"
  by (auto simp: validate_dhcp_range_consistency_def split: option.splits sum.splits if_splits)

lemma subnet_consistency_no_call:
  "Call n \<notin> set (fst (validate_dhcp_subnet_consistency c))"
  by (auto simp: validate_dhcp_subnet_consistency_def range_within_network_def
      split: option.splits sum.splits if_splits)

lemma validate_body_False:
  assumes "snd (validate_dhcp_range_consistency c) = Inr False"
  shows "snd (validate_body c) = Inr False \<or> (\<exists>e. snd (validate_body c) = Inl e)"
  using assms
  by (cases "validate_dhcp_range_consistency c")
     (auto simp: validate_body_def split: option.splits sum.splits)

lemma validate_result:
  "snd (validate_pfsense_config c) =
     (case snd (validate_body c) of Inl e \<Rightarrow> Inr False | Inr b \<Rightarrow> Inr b)"
  by (cases "validate_body c") (auto simp: validate_pfsense_config_def split: sum.splits)


lemma subnet_consistency_outside:
  assumes "interfaces_lan c = Inr l"
    and "IPv4Network_nonstrict (ipaddr l) (subnet l) = Inr net"
    and "dhcpd_lan_range c = Some r" "range_from r = Some f" "range_to r = Some t"
    and "IPv4Address f = Inr a" "IPv4Address t = Inr b"
    and "\<not> contains net a \<or> \<not> contains net b"
  shows "validate_dhcp_subnet_consistency c =
           ([Log ERROR ''[!] DHCP range must be within the LAN subnet.''], Inr False)"
proof -
  have "f \<noteq> []" "t \<noteq> []"
    using assms(6,7) IPv4Address_empty by auto
  then show ?thesis
    using assms
    by (auto simp: validate_dhcp_subnet_consistency_def range_within_network_def truthy_def)
qed

lemma subnet_consistency_unparseable_from:
  assumes "interfaces_lan c = Inr l"
    and "dhcpd_lan_range c = Some r" "range_from r = Some f" "IPv4Address f = Inl e"
  shows "validate_dhcp_subnet_consistency c = ([], Inr True)"
  using assms IPv4Address_error [of f e]
  by (auto simp: validate_dhcp_subnet_consistency_def range_within_network_def
      IPv4Network_nonstrict_def Let_def
      split: option.splits sum.splits if_splits dest: IPv4Address_error)

lemma validate_body_subnet_False:
  assumes "snd (validate_dhcp_subnet_consistency c) = Inr False"
  shows "snd (validate_body c) = Inr False \<or> (\<exists>e. snd (validate_body c) = Inl e)"
proof -
  obtain t b where r: "validate_dhcp_range_consistency c = (t, Inr b)"
    using range_consistency_total [of c] by (cases "validate_dhcp_range_consistency c") auto
  obtain t' where s: "validate_dhcp_subnet_consistency c = (t', Inr False)"
    using assms by (cases "validate_dhcp_subnet_consistency c") auto
  show ?thesis
    by (simp add: validate_body_def r s split: option.splits sum.splits)
qed

lemma subnet_consistency_endpoints_absent:
  assumes "interfaces_lan c = Inr l" and "\<not> range_endpoints_present c"
  shows "validate_dhcp_subnet_consistency c = ([], Inr True)"
  using assms
  by (auto simp: validate_dhcp_subnet_consistency_def range_endpoints_present_def
      IPv4Network_nonstrict_def Let_def
      split: option.splits sum.splits if_splits dest: IPv4Address_error)

text \<open>
  C1 (as amended). For every configuration whose \<open>dhcpd.lan.range\<close> has both endpoints
  present and non-empty, and whose \<open>from\<close> is not parseable as an IPv4 address, the
  range-consistency check does not skip: it logs the invalid addresses and returns
  \<open>False\<close>, so \<open>validate_pfsense_config\<close> returns \<open>False\<close>. Only the subnet-containment
  check, in every such configuration that has its \<open>interfaces.lan\<close> section, passes over
  the unparseable value and returns \<open>True\<close>.
\<close>
theorem sentinel_from_rejected_by_range_check:
  assumes "dhcpd_lan_range c = Some r" "range_from r = Some f" "range_to r = Some t"
    and "f \<noteq> []" "t \<noteq> []" "IPv4Address f = Inl e"
  shows "validate_dhcp_range_consistency c =
           ([Log ERROR ''[!] Invalid DHCP range addresses: %r''], Inr False)
         \<and> snd (validate_pfsense_config c) = Inr False
         \<and> (\<forall>l. interfaces_lan c = Inr l \<longrightarrow>
               validate_dhcp_subnet_consistency c = ([], Inr True))"
proof -
  have rc: "validate_dhcp_range_consistency c =
           ([Log ERROR ''[!] Invalid DHCP range addresses: %r''], Inr False)"
    using assms by (rule range_consistency_unparseable_from)
  then have "snd (validate_pfsense_config c) = Inr False"
    using validate_body_False [of c] by (auto simp: validate_result)
  moreover have "\<forall>l. interfaces_lan c = Inr l \<longrightarrow>
               validate_dhcp_subnet_consistency c = ([], Inr True)"
    using assms(1,2,6) subnet_consistency_unparseable_from by blast
  ultimately show ?thesis using rc by simp
qed

text \<open>
  C1 as stated fails: with \<open>from = "dhcp"\<close> in an otherwise valid configuration,
  validation fails, and the only error logged is the one about the range addresses.
\<close>

theorem sentinel_from_counterexample:
  "validate_pfsense_config sentinel_config =
     ([Call ''_validate_dhcp_range_consistency'',
       Log ERROR ''[!] Invalid DHCP range addresses: %r''], Inr False)"
  by code_simp

theorem sentinel_from_rejected_by_range_check_witness:
  "validate_dhcp_range_consistency sentinel_config =
           ([Log ERROR ''[!] Invalid DHCP range addresses: %r''], Inr False)
   \<and> snd (validate_pfsense_config sentinel_config) = Inr False
   \<and> validate_dhcp_subnet_consistency sentinel_config = ([], Inr True)"
proof -
  have h1: "dhcpd_lan_range sentinel_config =
              Some \<lparr> range_from = Some ''dhcp'', range_to = Some ''192.168.1.100'' \<rparr>"
    by (simp add: sentinel_config_def lan_config_def dhcpd_lan_range_def)
  have h2: "IPv4Address ''dhcp'' = Inl ValueError"
    by code_simp
  have h3: "interfaces_lan sentinel_config = Inr \<lparr> ipaddr = ''192.168.1.1'', subnet = 24 \<rparr>"
    by (simp add: sentinel_config_def lan_config_def interfaces_lan_def)
  show ?thesis
    using sentinel_from_rejected_by_range_check [OF h1 _ _ _ _ h2] h3 by simp
qed

text \<open>
  C7. For every configuration whose \<open>dhcpd.lan.range\<close> has both endpoints present and
  parseable as IPv4 addresses, the range-consistency check accepts exactly when the
  \<open>from\<close> address is strictly less than the \<open>to\<close> address.
\<close>
theorem range_consistency_iff_from_less_than_to:
  assumes "dhcpd_lan_range c = Some r" "range_from r = Some f" "range_to r = Some t"
    and "IPv4Address f = Inr a" "IPv4Address t = Inr b"
  shows "snd (validate_dhcp_range_consistency c) = Inr (a < b)"
  using range_consistency_parsed [OF assms] by auto

text \<open>
  The two instances of the specification: \<open>192.168.1.50\<close> to \<open>192.168.1.100\<close> passes,
  \<open>192.168.1.100\<close> to \<open>192.168.1.50\<close> is rejected.
\<close>

theorem range_consistency_iff_from_less_than_to_witness:
  "snd (validate_dhcp_range_consistency ordered_config) = Inr True
   \<and> snd (validate_dhcp_range_consistency inverted_config) = Inr False"
proof -
  have o: "dhcpd_lan_range ordered_config =
              Some \<lparr> range_from = Some ''192.168.1.50'', range_to = Some ''192.168.1.100'' \<rparr>"
    by (simp add: ordered_config_def lan_config_def dhcpd_lan_range_def)
  have i: "dhcpd_lan_range inverted_config =
              Some \<lparr> range_from = Some ''192.168.1.100'', range_to = Some ''192.168.1.50'' \<rparr>"
    by (simp add: inverted_config_def lan_config_def dhcpd_lan_range_def)
  have a50: "IPv4Address ''192.168.1.50'' = Inr 3232235826"
    by code_simp
  have a100: "IPv4Address ''192.168.1.100'' = Inr 3232235876"
    by code_simp
  show ?thesis
    using range_consistency_iff_from_less_than_to [OF o _ _ a50 a100]
      range_consistency_iff_from_less_than_to [OF i _ _ a100 a50]
    by simp
qed

text \<open>
  C8. For every configuration whose DHCP range endpoints are both present and parseable
  as IPv4 addresses, and whose \<open>interfaces.lan.ipaddr\<close> and \<open>interfaces.lan.subnet\<close> form
  a network, \<open>validate_pfsense_config\<close> returns \<open>False\<close> when either endpoint lies
  outside that network: the subnet-containment check logs the violation and fails.
\<close>
theorem range_outside_lan_network_rejected:
  assumes "interfaces_lan c = Inr l"
    and "IPv4Network_nonstrict (ipaddr l) (subnet l) = Inr net"
    and "dhcpd_lan_range c = Some r" "range_from r = Some f" "range_to r = Some t"
    and "IPv4Address f = Inr a" "IPv4Address t = Inr b"
    and "\<not> contains net a \<or> \<not> contains net b"
  shows "snd (validate_pfsense_config c) = Inr False
         \<and> validate_dhcp_subnet_consistency c =
             ([Log ERROR ''[!] DHCP range must be within the LAN subnet.''], Inr False)"
proof -
  have s: "validate_dhcp_subnet_consistency c =
             ([Log ERROR ''[!] DHCP range must be within the LAN subnet.''], Inr False)"
    using assms by (rule subnet_consistency_outside)
  then show ?thesis
    using validate_body_subnet_False [of c] by (auto simp: validate_result)
qed

text \<open>
  The instance of the specification: LAN \<open>192.168.1.1/24\<close>, range \<open>192.168.1.50\<close> to
  \<open>192.168.2.10\<close>.
\<close>

theorem range_outside_lan_network_rejected_witness:
  "validate_pfsense_config outside_config =
     ([Call ''_validate_dhcp_range_consistency'', Call ''_validate_dhcp_subnet_consistency'',
       Log ERROR ''[!] DHCP range must be within the LAN subnet.''], Inr False)"
proof -
  have h1: "interfaces_lan outside_config = Inr \<lparr> ipaddr = ''192.168.1.1'', subnet = 24 \<rparr>"
    by (simp add: outside_config_def lan_config_def interfaces_lan_def)
  have h2: "IPv4Network_nonstrict ''192.168.1.1'' 24 =
              Inr \<lparr> network_address = 3232235776, netmask = 4294967040 \<rparr>"
    by code_simp
  have h3: "dhcpd_lan_range outside_config =
              Some \<lparr> range_from = Some ''192.168.1.50'', range_to = Some ''192.168.2.10'' \<rparr>"
    by (simp add: outside_config_def lan_config_def dhcpd_lan_range_def)
  have h4: "IPv4Address ''192.168.1.50'' = Inr 3232235826"
    by code_simp
  have h5: "IPv4Address ''192.168.2.10'' = Inr 3232236042"
    by code_simp
  have h6: "\<not> contains \<lparr> network_address = 3232235776, netmask = 4294967040 \<rparr> 3232236042"
    by code_simp
  have sub: "validate_dhcp_subnet_consistency outside_config =
             ([Log ERROR ''[!] DHCP range must be within the LAN subnet.''], Inr False)"
    using range_outside_lan_network_rejected [OF h1 _ h3 _ _ h4 h5] h2 h6 by simp
  have rng: "validate_dhcp_range_consistency outside_config = ([], Inr True)"
    using range_consistency_parsed [OF h3 _ _ h4 h5] by simp
  have sys: "system outside_config = Some \<lparr> hostname = ''fw'' \<rparr>"
    by (simp add: outside_config_def lan_config_def)
  show ?thesis
    by (simp add: validate_pfsense_config_def validate_body_def h1 sys rng sub)
qed

text \<open>
  C2 (as amended). For every configuration on which \<open>validate_pfsense_config\<close> runs, the
  two DHCP checks are evaluated only as long as no earlier check has failed: the
  range-consistency check exactly when the hostname and the LAN address are there and
  non-empty, the subnet-containment check exactly when, moreover, the range-consistency
  check has returned \<open>True\<close>. As before, subnet-containment is skipped when the inputs of
  the range-consistency check (the range endpoints) are absent: the check then returns
  \<open>True\<close> at once, without a containment test and without a log record.
\<close>

theorem dhcp_checks_evaluated_until_first_failure:
  "(Call ''_validate_dhcp_range_consistency'' \<in> set (fst (validate_pfsense_config c)) \<longleftrightarrow>
      (\<exists>s l. system c = Some s \<and> hostname s \<noteq> [] \<and>
             interfaces_lan c = Inr l \<and> ipaddr l \<noteq> []))
   \<and> (Call ''_validate_dhcp_subnet_consistency'' \<in> set (fst (validate_pfsense_config c)) \<longleftrightarrow>
      (\<exists>s l. system c = Some s \<and> hostname s \<noteq> [] \<and>
             interfaces_lan c = Inr l \<and> ipaddr l \<noteq> []) \<and>
      snd (validate_dhcp_range_consistency c) = Inr True)
   \<and> (Call ''_validate_dhcp_subnet_consistency'' \<in> set (fst (validate_pfsense_config c)) \<and>
        \<not> range_endpoints_present c \<longrightarrow>
          validate_dhcp_subnet_consistency c = ([], Inr True))"
proof -
  obtain t b where r: "validate_dhcp_range_consistency c = (t, Inr b)"
    using range_consistency_total [of c] by (cases "validate_dhcp_range_consistency c") auto
  obtain t' x where s: "validate_dhcp_subnet_consistency c = (t', x)"
    by (cases "validate_dhcp_subnet_consistency c")
  have nt: "\<And>n. Call n \<notin> set t"
    using range_consistency_no_call [of _ c] by (simp add: r)
  have nt': "\<And>n. Call n \<notin> set t'"
    using subnet_consistency_no_call [of _ c] by (simp add: s)
  have calls: "(Call ''_validate_dhcp_range_consistency'' \<in> set (fst (validate_pfsense_config c)) \<longleftrightarrow>
      (\<exists>s l. system c = Some s \<and> hostname s \<noteq> [] \<and>
             interfaces_lan c = Inr l \<and> ipaddr l \<noteq> []))
   \<and> (Call ''_validate_dhcp_subnet_consistency'' \<in> set (fst (validate_pfsense_config c)) \<longleftrightarrow>
      (\<exists>s l. system c = Some s \<and> hostname s \<noteq> [] \<and>
             interfaces_lan c = Inr l \<and> ipaddr l \<noteq> []) \<and>
      snd (validate_dhcp_range_consistency c) = Inr True)"
    by (cases x)
       (auto simp: validate_pfsense_config_def validate_body_def r s nt nt'
             split: option.splits sum.splits)
  have skipped: "validate_dhcp_subnet_consistency c = ([], Inr True)"
    if "Call ''_validate_dhcp_subnet_consistency'' \<in> set (fst (validate_pfsense_config c))"
      and "\<not> range_endpoints_present c"
  proof -
    have "\<exists>s l. system c = Some s \<and> hostname s \<noteq> [] \<and>
             interfaces_lan c = Inr l \<and> ipaddr l \<noteq> []"
      using that(1) calls by simp
    then obtain l where "interfaces_lan c = Inr l"
      by auto
    then show ?thesis
      using that(2) by (rule subnet_consistency_endpoints_absent)
  qed
  show ?thesis
    using calls skipped by blast
qed

text \<open>
  C2 as stated fails: with an empty hostname and an inverted DHCP range, validation logs
  the hostname error and nothing else; neither DHCP check is evaluated, although the
  range-consistency check, had it run, would have logged its own error.
\<close>

theorem dhcp_checks_after_failure_counterexample:
  "validate_pfsense_config nameless_inverted_config =
     ([Log ERROR ''[!] Hostname is required.''], Inr False)
   \<and> validate_dhcp_range_consistency nameless_inverted_config =
     ([Log ERROR ''[!] DHCP range 'from' address must be less than 'to' address.''], Inr False)"
  by code_simp

theorem dhcp_checks_evaluated_until_first_failure_witness:
  "Call ''_validate_dhcp_range_consistency'' \<in> set (fst (validate_pfsense_config inverted_config))
   \<and> Call ''_validate_dhcp_subnet_consistency''
        \<notin> set (fst (validate_pfsense_config inverted_config))
   \<and> Call ''_validate_dhcp_range_consistency''
        \<notin> set (fst (validate_pfsense_config nameless_inverted_config))
   \<and> Call ''_validate_dhcp_subnet_consistency''
        \<in> set (fst (validate_pfsense_config rangeless_config))
   \<and> \<not> range_endpoints_present rangeless_config
   \<and> validate_dhcp_subnet_consistency rangeless_config = ([], Inr True)"
proof -
  have i: "snd (validate_dhcp_range_consistency inverted_config) = Inr False"
    by code_simp
  have s: "system inverted_config = Some \<lparr> hostname = ''fw'' \<rparr>"
    by (simp add: inverted_config_def lan_config_def)
  have l: "interfaces_lan inverted_config = Inr \<lparr> ipaddr = ''192.168.1.1'', subnet = 24 \<rparr>"
    by (simp add: inverted_config_def lan_config_def interfaces_lan_def)
  have n: "system nameless_inverted_config = Some \<lparr> hostname = [] \<rparr>"
    by (simp add: nameless_inverted_config_def lan_config_def)
  have rs: "system rangeless_config = Some \<lparr> hostname = ''fw'' \<rparr>"
    by (simp add: rangeless_config_def lan_config_def)
  have rl: "interfaces_lan rangeless_config = Inr \<lparr> ipaddr = ''192.168.1.1'', subnet = 24 \<rparr>"
    by (simp add: rangeless_config_def lan_config_def interfaces_lan_def)
  have rr: "snd (validate_dhcp_range_consistency rangeless_config) = Inr True"
    by code_simp
  have ra: "\<not> range_endpoints_present rangeless_config"
    by code_simp
  show ?thesis
    using dhcp_checks_evaluated_until_first_failure [of inverted_config]
      dhcp_checks_evaluated_until_first_failure [of nameless_inverted_config]
      dhcp_checks_evaluated_until_first_failure [of rangeless_config]
    by (simp add: i s l n rs rl rr ra)
qed

text \<open>
  C10. For every input configuration, \<open>validate_pfsense_config\<close> returns a boolean and
  raises nothing: an exception of the body (such as the \<open>AttributeError\<close> of a missing
  section) is caught and turned into \<open>False\<close>.
\<close>

theorem validate_total_never_raises:
  "(\<exists>b. snd (validate_pfsense_config c) = Inr b)
   \<and> (\<forall>e. snd (validate_body c) = Inl e \<longrightarrow> snd (validate_pfsense_config c) = Inr False)"
  by (cases "snd (validate_body c)") (auto simp: validate_result)

theorem validate_total_never_raises_witness:
  "snd (validate_body empty_config) = Inl AttributeError
   \<and> snd (validate_pfsense_config empty_config) = Inr False"
proof -
  have b: "snd (validate_body empty_config) = Inl AttributeError"
    by (simp add: validate_body_def empty_config_def)
  show ?thesis
    using validate_total_never_raises [of empty_config] b by simp
qed

subsection \<open>The transport session and the orchestrator\<close>

lemma bind_perform:
  "bind (perform w a) f =
     (case raises w a of
        None \<Rightarrow> (a # fst (f ()), snd (f ()))
      | Some e \<Rightarrow> ([a], Inl e))"
  by (simp add: perform_def split: option.splits)

lemma key_attempt_cases:
  "key_attempt w =
     (case PFSENSE_KEY_FILE w of
        None \<Rightarrow> ([], Inr ())
      | Some p \<Rightarrow>
          if p = [] then ([], Inr ())
          else (case raises w (LoadKey p) of
                  Some e \<Rightarrow> ([LoadKey p], Inl e)
                | None \<Rightarrow> (case raises w ConnectKey of
                             Some e \<Rightarrow> ([LoadKey p, ConnectKey], Inl e)
                           | None \<Rightarrow> ([LoadKey p, ConnectKey], Inr ()))))"
  by (simp add: key_attempt_def bind_perform perform_def split: option.splits)

lemma connect_trace_events:
  "set (fst (connect w)) \<subseteq>
     {ConnectKey, ConnectPassword} \<union> range LoadKey \<union> range (Log ERROR)"
  by (auto simp: connect_def key_attempt_cases perform_def split: option.splits if_splits)

lemma connect_no_close: "count_list (fst (connect w)) Close = 0"
  using connect_trace_events [of w] by (auto simp: count_list_0_iff)

lemma connect_no_remote_effect: "filter remote_effect (fst (connect w)) = []"
proof -
  have "\<forall>a \<in> set (fst (connect w)). \<not> remote_effect a"
    using connect_trace_events [of w] by auto
  then show ?thesis
    by (simp add: filter_empty_conv)
qed

lemma snd_bind_perform:
  "snd (bind (perform w a) f) = Inr v \<longleftrightarrow> raises w a = None \<and> snd (f ()) = Inr v"
  by (auto simp: bind_perform split: option.splits)

lemma fst_bind_perform:
  "raises w a = None \<Longrightarrow> fst (bind (perform w a) f) = a # fst (f ())"
  by (simp add: bind_perform)

lemma push_returns:
  assumes "snd (push_pfsense_config w c) = Inr v"
  shows "\<exists>config_xml. encode w c = Inr config_xml \<and> v = 1 \<and>
           fst (push_pfsense_config w c) =
             fst (connect w) @
             [ExecCommand (''cp '' @ CONFIG_DIR w @ '' '' @ BACKUP_CONFIG_DIR w),
              OpenSftp,
              WriteTempFile config_xml,
              SftpPut config_xml ''/tmp/config.xml'',
              SftpClose,
              ExecCommand (''mv /tmp/config.xml '' @ CONFIG_DIR w),
              ExecCommand ''rm /tmp/config.cache'',
              ExecCommand ''/etc/rc.reload_all'',
              Close]"
proof (cases "connect w")
  case (Pair t r)
  show ?thesis
  proof (cases r)
    case (Inl e)
    with Pair assms show ?thesis
      by (simp add: push_pfsense_config_def)
  next
    case (Inr u)
    show ?thesis
    proof (cases "encode w c")
      case (Inl e)
      with Pair Inr assms show ?thesis
        by (simp add: push_pfsense_config_def snd_bind_perform)
    next
      case enc: (Inr config_xml)
      have ok: "raises w (ExecCommand (''cp '' @ CONFIG_DIR w @ '' '' @ BACKUP_CONFIG_DIR w)) = None
          \<and> raises w OpenSftp = None
          \<and> raises w (WriteTempFile config_xml) = None
          \<and> raises w (SftpPut config_xml ''/tmp/config.xml'') = None
          \<and> raises w SftpClose = None
          \<and> raises w (ExecCommand (''mv /tmp/config.xml '' @ CONFIG_DIR w)) = None
          \<and> raises w (ExecCommand ''rm /tmp/config.cache'') = None
          \<and> raises w (ExecCommand ''/etc/rc.reload_all'') = None
          \<and> raises w Close = None
          \<and> v = 1"
        using assms Pair Inr enc
        by (simp add: push_pfsense_config_def snd_bind_perform)
      then show ?thesis
        using Pair Inr enc
        by (simp add: push_pfsense_config_def fst_bind_perform)
    qed
  qed
qed

text \<open>
  C3 (as amended). In \<open>connect\<close>, when a private key is configured, the password-based
  connect call is executed exactly when loading the key and the key-based connect both
  return without raising, and then it follows the key-based connect directly. When the
  key-based connect raises, \<open>connect\<close> raises too, and no password attempt is made.
\<close>

theorem password_attempt_iff_key_attempt_returns:
  assumes "PFSENSE_KEY_FILE w = Some p" "p \<noteq> []"
  shows "(ConnectPassword \<in> set (fst (connect w)) \<longleftrightarrow>
            raises w (LoadKey p) = None \<and> raises w ConnectKey = None)
         \<and> (raises w (LoadKey p) = None \<and> raises w ConnectKey = None \<longrightarrow>
              take 3 (fst (connect w)) = [LoadKey p, ConnectKey, ConnectPassword])
         \<and> (\<forall>e. raises w (LoadKey p) = None \<and> raises w ConnectKey = Some e \<longrightarrow>
              (\<exists>e'. connect w = ([LoadKey p, ConnectKey], Inl e')
                  \<or> (\<exists>m. connect w = ([LoadKey p, ConnectKey, Log ERROR m], Inl e'))))"
  using assms
  by (auto simp: connect_def key_attempt_cases perform_def split: option.splits)

text \<open>
  C3 as stated fails: when the key-based connect is rejected, the trace of \<open>connect\<close> ends
  with the error record, without a password attempt.
\<close>

theorem password_attempt_counterexample:
  "connect key_rejected_world =
     ([LoadKey ''/root/.ssh/id_rsa'', ConnectKey,
       Log ERROR ''Authentication failed when connecting to pfSense: %s''],
      Inl (PfSenseError ''Authentication failed''))"
  by code_simp

theorem password_attempt_iff_key_attempt_returns_witness:
  "connect (quiet_world (Some ''/root/.ssh/id_rsa'')) =
     ([LoadKey ''/root/.ssh/id_rsa'', ConnectKey, ConnectPassword], Inr ())
   \<and> ConnectPassword \<notin> set (fst (connect key_rejected_world))"
proof -
  have k: "PFSENSE_KEY_FILE key_rejected_world = Some ''/root/.ssh/id_rsa''"
    by (simp add: key_rejected_world_def failing_world_def quiet_world_def)
  have r: "raises key_rejected_world ConnectKey = Some AuthenticationException"
    by (simp add: key_rejected_world_def failing_world_def quiet_world_def)
  have q: "connect (quiet_world (Some ''/root/.ssh/id_rsa'')) =
     ([LoadKey ''/root/.ssh/id_rsa'', ConnectKey, ConnectPassword], Inr ())"
    by code_simp
  show ?thesis
    using password_attempt_iff_key_attempt_returns [OF k] r q by simp
qed

lemma count_bind_perform:
  "a \<noteq> Close \<Longrightarrow>
   count_list (fst (bind (perform w a) f)) Close =
     (if raises w a = None then count_list (fst (f ())) Close else 0)"
  by (auto simp: bind_perform split: option.splits)

lemma count_bind_Close:
  "count_list (fst (bind (perform w Close) (\<lambda>_. ([], r)))) Close = 1"
  by (auto simp: bind_perform split: option.splits)

text \<open>
  How often \<open>client.close()\<close> is invoked by the two operations: once when every call
  made before it has returned, and otherwise not at all.
\<close>

lemma close_count:
  "count_list (fst (push_pfsense_config w c)) Close = (if push_reaches_close w c then 1 else 0)
   \<and> count_list (fst (fetch_pfsense_config w)) Close = (if fetch_reaches_close w then 1 else 0)"
proof (cases "connect w")
  case (Pair t r)
  have t: "count_list t Close = 0"
    using connect_no_close [of w] by (simp add: Pair)
  show ?thesis
  proof (cases r)
    case (Inl e)
    with Pair t show ?thesis
      by (simp add: push_pfsense_config_def push_reaches_close_def
          fetch_pfsense_config_def fetch_reaches_close_def)
  next
    case (Inr u)
    have fetch: "count_list (fst (fetch_pfsense_config w)) Close =
                   (if fetch_reaches_close w then 1 else 0)"
      using Pair Inr t
      by (simp add: fetch_pfsense_config_def fetch_reaches_close_def count_bind_perform
          count_bind_Close)
    have push: "count_list (fst (push_pfsense_config w c)) Close =
                  (if push_reaches_close w c then 1 else 0)"
    proof (cases "encode w c")
      case (Inl e)
      with Pair Inr t show ?thesis
        by (simp add: push_pfsense_config_def push_reaches_close_def count_bind_perform)
    next
      case enc: (Inr config_xml)
      with Pair Inr t show ?thesis
        by (simp add: push_pfsense_config_def push_reaches_close_def count_bind_perform
            count_bind_Close)
    qed
    show ?thesis
      using push fetch by simp
  qed
qed

text \<open>
  C4. In \<open>fetch_pfsense_config\<close> and \<open>push_pfsense_config\<close> the session is to be closed
  on every exit path, exactly once. The exits that the code writes out do so: both
  functions close before they return, and \<open>fetch_pfsense_config\<close> closes before it raises
  on a non-zero exit status. The exits by an exception of an intermediate call do not:
  when the upload of \<open>push_pfsense_config\<close> or the command of \<open>fetch_pfsense_config\<close>
  raises, the function is left with the session open.
\<close>

theorem close_missing_when_a_call_raises:
  "push_pfsense_config upload_fails_world ordered_config =
     ([ConnectPassword,
       ExecCommand ''cp /conf/config.xml /conf/config.xml.bak'',
       OpenSftp,
       WriteTempFile ''<pfsense/>'',
       SftpPut ''<pfsense/>'' ''/tmp/config.xml''],
      Inl OtherException)
   \<and> count_list (fst (push_pfsense_config upload_fails_world ordered_config)) Close = 0
   \<and> fetch_pfsense_config exec_fails_world =
     ([ConnectPassword, ExecCommand ''cat /conf/config.xml''], Inl SSHException)
   \<and> fetch_pfsense_config nonzero_exit_world =
     ([ConnectPassword, ExecCommand ''cat /conf/config.xml'', RecvExitStatus, ReadStderr, Close],
      Inl (PfSenseError ''Failed to fetch pfSense configuration.''))"
  by code_simp

text \<open>
  C6. Every run of \<open>push_pfsense_config\<close> in which all steps succeed acts on the remote
  device in exactly this order: copy the live configuration to the backup path, upload
  the new configuration to the staging path, move the staging path over the live path,
  remove the cache file, run the reload command.
\<close>

theorem push_remote_effects_in_order:
  assumes "snd (push_pfsense_config w c) = Inr v"
  shows "\<exists>config_xml. encode w c = Inr config_xml \<and>
           filter remote_effect (fst (push_pfsense_config w c)) =
             [ExecCommand (''cp '' @ CONFIG_DIR w @ '' '' @ BACKUP_CONFIG_DIR w),
              SftpPut config_xml ''/tmp/config.xml'',
              ExecCommand (''mv /tmp/config.xml '' @ CONFIG_DIR w),
              ExecCommand ''rm /tmp/config.cache'',
              ExecCommand ''/etc/rc.reload_all'']"
proof -
  obtain config_xml where e: "encode w c = Inr config_xml"
    and t: "fst (push_pfsense_config w c) =
             fst (connect w) @
             [ExecCommand (''cp '' @ CONFIG_DIR w @ '' '' @ BACKUP_CONFIG_DIR w),
              OpenSftp,
              WriteTempFile config_xml,
              SftpPut config_xml ''/tmp/config.xml'',
              SftpClose,
              ExecCommand (''mv /tmp/config.xml '' @ CONFIG_DIR w),
              ExecCommand ''rm /tmp/config.cache'',
              ExecCommand ''/etc/rc.reload_all'',
              Close]"
    using push_returns [OF assms] by blast
  show ?thesis
    by (simp add: e t connect_no_remote_effect)
qed

theorem push_remote_effects_in_order_witness:
  "snd (push_pfsense_config (quiet_world None) ordered_config) = Inr 1
   \<and> filter remote_effect (fst (push_pfsense_config (quiet_world None) ordered_config)) =
       [ExecCommand ''cp /conf/config.xml /conf/config.xml.bak'',
        SftpPut ''<pfsense/>'' ''/tmp/config.xml'',
        ExecCommand ''mv /tmp/config.xml /conf/config.xml'',
        ExecCommand ''rm /tmp/config.cache'',
        ExecCommand ''/etc/rc.reload_all'']"
proof -
  have h: "snd (push_pfsense_config (quiet_world None) ordered_config) = Inr 1"
    by code_simp
  have e: "encode (quiet_world None) ordered_config = Inr ''<pfsense/>''"
    by (simp add: quiet_world_def)
  have d: "CONFIG_DIR (quiet_world None) = ''/conf/config.xml''"
    "BACKUP_CONFIG_DIR (quiet_world None) = ''/conf/config.xml.bak''"
    by (simp_all add: quiet_world_def)
  show ?thesis
    using push_remote_effects_in_order [OF h] h by (simp add: e d)
qed

lemma push_returns_iff:
  "snd (push_pfsense_config w c) = Inr v \<longleftrightarrow>
     v = 1 \<and> push_reaches_close w c \<and> raises w Close = None"
proof (cases "connect w")
  case (Pair t r)
  show ?thesis
  proof (cases r)
    case (Inl e)
    with Pair show ?thesis
      by (simp add: push_pfsense_config_def push_reaches_close_def)
  next
    case (Inr u)
    show ?thesis
    proof (cases "encode w c")
      case (Inl e)
      with Pair Inr show ?thesis
        by (simp add: push_pfsense_config_def push_reaches_close_def snd_bind_perform)
    next
      case enc: (Inr config_xml)
      with Pair Inr show ?thesis
        by (auto simp: push_pfsense_config_def push_reaches_close_def snd_bind_perform)
    qed
  qed
qed

lemma perform_ignores_exit_status:
  "perform (w \<lparr> exit_status := s \<rparr>) a = perform w a"
  by (simp add: perform_def)

lemma connect_ignores_exit_status:
  "connect (w \<lparr> exit_status := s \<rparr>) = connect w"
proof -
  have "key_attempt (w \<lparr> exit_status := s \<rparr>) = key_attempt w"
    by (simp add: key_attempt_def perform_ignores_exit_status split: option.splits)
  then show ?thesis
    by (simp add: connect_def perform_ignores_exit_status)
qed

lemma push_ignores_exit_status:
  "push_pfsense_config (w \<lparr> exit_status := s \<rparr>) c = push_pfsense_config w c"
  by (simp add: push_pfsense_config_def connect_ignores_exit_status
      perform_ignores_exit_status)

text \<open>
  C9 (as amended). Every call of \<open>push_pfsense_config\<close> that returns, returns 1; the value
  0 of its docstring is never returned. It returns exactly when none of its calls raises
  (connecting, issuing a command, opening the SFTP channel, encoding, writing the
  temporary file, uploading, closing), and raises otherwise. The exit status of a remote
  command is not among its failure modes: it is never read, and a command that fails on
  the device leaves the result at 1.
\<close>

theorem push_returns_one_unless_a_call_raises:
  "snd (push_pfsense_config w c) \<noteq> Inr 0
   \<and> (\<forall>v. snd (push_pfsense_config w c) = Inr v \<longrightarrow> v = 1)
   \<and> (snd (push_pfsense_config w c) = Inr 1 \<longleftrightarrow>
        push_reaches_close w c \<and> raises w Close = None)
   \<and> ((\<exists>e. snd (push_pfsense_config w c) = Inl e) \<longleftrightarrow>
        \<not> (push_reaches_close w c \<and> raises w Close = None))
   \<and> (\<forall>s. push_pfsense_config (w \<lparr> exit_status := s \<rparr>) c = push_pfsense_config w c)"
proof -
  have one: "snd (push_pfsense_config w c) = Inr 1 \<longleftrightarrow>
               push_reaches_close w c \<and> raises w Close = None"
    by (simp add: push_returns_iff)
  have only: "\<forall>v. snd (push_pfsense_config w c) = Inr v \<longrightarrow> v = 1"
    by (simp add: push_returns_iff)
  have raise: "(\<exists>e. snd (push_pfsense_config w c) = Inl e) \<longleftrightarrow>
                 \<not> (push_reaches_close w c \<and> raises w Close = None)"
  proof (cases "snd (push_pfsense_config w c)")
    case (Inl e)
    then show ?thesis using one by auto
  next
    case (Inr v)
    then show ?thesis using one only by auto
  qed
  have "snd (push_pfsense_config w c) \<noteq> Inr 0"
    using only by auto
  then show ?thesis
    using one only raise by (simp add: push_ignores_exit_status)
qed

text \<open>
  C9 as stated fails: on a device whose commands end with exit status 1, nothing raises
  and \<open>push_pfsense_config\<close> returns 1; no call of its trace reads an exit status.
\<close>

theorem push_failure_modes_counterexample:
  "exit_status nonzero_exit_world = 1
   \<and> push_pfsense_config nonzero_exit_world ordered_config =
       ([ConnectPassword,
         ExecCommand ''cp /conf/config.xml /conf/config.xml.bak'',
         OpenSftp,
         WriteTempFile ''<pfsense/>'',
         SftpPut ''<pfsense/>'' ''/tmp/config.xml'',
         SftpClose,
         ExecCommand ''mv /tmp/config.xml /conf/config.xml'',
         ExecCommand ''rm /tmp/config.cache'',
         ExecCommand ''/etc/rc.reload_all'',
         Close],
        Inr 1)"
  by code_simp

theorem push_returns_one_unless_a_call_raises_witness:
  "snd (push_pfsense_config (quiet_world None) ordered_config) = Inr 1
   \<and> (\<exists>e. snd (push_pfsense_config upload_fails_world ordered_config) = Inl e)
   \<and> push_pfsense_config ((quiet_world None) \<lparr> exit_status := 1 \<rparr>) ordered_config =
       push_pfsense_config (quiet_world None) ordered_config"
proof -
  have q: "push_reaches_close (quiet_world None) ordered_config"
    by code_simp
  have qc: "raises (quiet_world None) Close = None"
    by (simp add: quiet_world_def)
  have u: "\<not> push_reaches_close upload_fails_world ordered_config"
    by code_simp
  show ?thesis
    using push_returns_one_unless_a_call_raises [of "quiet_world None" ordered_config]
      push_returns_one_unless_a_call_raises [of upload_fails_world ordered_config]
    by (simp add: q qc u)
qed

end
